theory Spec2Isabelle
  imports Main
begin

section \<open>The ECS service as the control plane reports it\<close>

text \<open>
  The program reads three string fields of an \<open>ecs.Deployment\<close>, always through
  \<open>aws.StringValue\<close>, which turns a nil pointer into the empty string. A field is
  therefore a \<open>string\<close>, with \<open>''''\<close> standing for nil as well. The field \<open>Id\<close> is
  called \<open>Id_dep\<close> here, since \<open>Id\<close> is the identity relation of HOL.
\<close>

record deployment =
  Id_dep :: string
  RolloutState :: string
  Status :: string

text \<open>
  Of \<open>ecs.Service\<close> the program reads the two counts (through \<open>aws.Int64Value\<close>,
  compared for equality only), the deployments, the events and the load balancers. An
  event is kept as its text, a load balancer as its \<open>TargetGroupArn\<close>.
\<close>

record service =
  DesiredCount :: int
  RunningCount :: int
  Deployments :: "deployment list"
  Events :: "string list"
  LoadBalancers :: "string list"

section \<open>The control plane\<close>

text \<open>
  A call of the AWS SDK returns an output or an error. The control plane of one run is
  a record of its answers: \<open>DescribeServices api k\<close> is the answer to the \<open>k\<close>-th
  call of \<open>DescribeServices\<close> of the run (counted from 0), so that successive
  refreshes may see different snapshots; \<open>ListTasks\<close> is the list of ARNs of the
  STOPPED tasks; \<open>DescribeTasks\<close> maps the requested ARNs to the task descriptions;
  \<open>DescribeTargetHealth\<close> maps a target group ARN to the health states of its
  targets.
\<close>

datatype 'a api_result = ApiErr string | ApiOk 'a

record ecs_api =
  DescribeServices :: "nat \<Rightarrow> service list api_result"
  ListTasks :: "string list api_result"
  DescribeTasks :: "string list \<Rightarrow> string list api_result"
  DescribeTargetHealth :: "string \<Rightarrow> string list api_result"

text \<open>
  The errors the program returns. \<open>fmt.Errorf\<close> builds them from fixed texts:
  \<open>ServiceNotFound\<close> is "service not found", \<open>DeploymentDisappeared\<close> is "deployment
  disappeared", \<open>TimeoutDeployment\<close> is "timeouted out waiting for deployment to
  happen", \<open>TimeoutCount\<close> is "timeouted out waiting for desired to match running".
  \<open>TransportError\<close> carries the error of a failed SDK call.
\<close>

datatype error =
    TransportError string
  | ServiceNotFound
  | DeploymentDisappeared
  | TimeoutDeployment
  | TimeoutCount

text \<open>What the diagnostics print; progress messages are not recorded.\<close>

datatype printed =
    NoEventsFound
  | EventList "string list"
  | NoStoppedTasks
  | TaskList "string list"

text \<open>A Go function either returns or panics (here: a slice bound out of range).\<close>

datatype 'a outcome = Panic | Done 'a

section \<open>The service handler\<close>

text \<open>
  \<open>serviceHandler\<close> holds the two settings given on the command line (\<open>checkInterval\<close>
  in seconds, \<open>checkTimeout\<close> in minutes) and the current snapshot. \<open>main\<close> refreshes
  once before any check and exits when that fails, so \<open>currentOutput\<close> is never nil
  where the functions below read it. Three more fields record what a run does to the
  world: \<open>clock\<close> is the time in seconds the run has spent waiting, \<open>describeCalls\<close>
  and \<open>healthCalls\<close> count the calls of \<open>DescribeServices\<close> and
  \<open>DescribeTargetHealth\<close>, \<open>stdout\<close> is the diagnostics printed so far. SDK calls
  take no time in this model; waiting on a ticker and \<open>time.Sleep\<close> do.
\<close>

record serviceHandler =
  checkInterval :: int
  checkTimeout :: int
  currentOutput :: service
  clock :: nat
  describeCalls :: nat
  healthCalls :: nat
  stdout :: "printed list"

definition deploymentState :: "deployment \<Rightarrow> string \<Rightarrow> bool" where
  "deploymentState d desiredState = (RolloutState d = desiredState)"

definition refresh :: "ecs_api \<Rightarrow> serviceHandler \<Rightarrow> error option \<times> serviceHandler" where
  "refresh api sh =
     (let sh1 = sh\<lparr>describeCalls := describeCalls sh + 1\<rparr> in
      case DescribeServices api (describeCalls sh) of
        ApiErr e \<Rightarrow> (Some (TransportError e), sh1)
      | ApiOk [] \<Rightarrow> (Some ServiceNotFound, sh1)
      | ApiOk (s # _) \<Rightarrow> (None, sh1\<lparr>currentOutput := s\<rparr>))"

fun getActiveDeploymentId_in :: "deployment list \<Rightarrow> string" where
  "getActiveDeploymentId_in [] = ''''"
| "getActiveDeploymentId_in (d # ds) =
     (if Status d = ''PRIMARY'' then Id_dep d else getActiveDeploymentId_in ds)"

definition getActiveDeploymentId :: "serviceHandler \<Rightarrow> string" where
  "getActiveDeploymentId sh = getActiveDeploymentId_in (Deployments (currentOutput sh))"

section \<open>Tickers and select\<close>

text \<open>
  Both wait loops create \<open>time.NewTicker(time.Second * 10)\<close> and
  \<open>time.NewTicker(time.Minute * 10)\<close>, whatever \<open>checkInterval\<close> and \<open>checkTimeout\<close>
  are, and then \<open>select\<close> on the two channels. A ticker is modelled by the time of its
  next tick. \<open>select\<close> blocks until the earlier of the two ticks (a tick that is
  already due is received at once) and says which channel was received from and when.
  When both are due at the same moment Go chooses one at random: \<open>tie\<close> is that choice,
  \<open>True\<close> for the timeout channel.
\<close>

definition checkPeriod :: nat where
  "checkPeriod = 10"

definition timeoutPeriod :: nat where
  "timeoutPeriod = 10 * 60"

datatype fired = CheckTimer nat | TimeoutTimer nat

definition select :: "bool \<Rightarrow> nat \<Rightarrow> nat \<Rightarrow> nat \<Rightarrow> fired" where
  "select tie now nextCheck nextTimeout =
     (let tc = max now nextCheck; tt = max now nextTimeout in
      if tc < tt then CheckTimer tc
      else if tt < tc then TimeoutTimer tt
      else if tie then TimeoutTimer tt else CheckTimer tc)"

definition sleep :: "nat \<Rightarrow> serviceHandler \<Rightarrow> serviceHandler" where
  "sleep secs sh = sh\<lparr>clock := clock sh + secs\<rparr>"

section \<open>Waiting for the deployment\<close>

text \<open>
  The closure \<open>isComplete\<close> of \<open>waitForDeployment\<close>: the first deployment with the
  tracked id decides; \<open>NOT_FOUND\<close> is returned in place of a rollout state when no
  deployment has the id.
\<close>

fun isComplete_in :: "deployment list \<Rightarrow> string \<Rightarrow> string \<times> bool" where
  "isComplete_in [] deploymentId = (''NOT_FOUND'', False)"
| "isComplete_in (d # ds) deploymentId =
     (if Id_dep d = deploymentId
      then (if deploymentState d ''COMPLETED''
            then (RolloutState d, True)
            else (RolloutState d, False))
      else isComplete_in ds deploymentId)"

definition isComplete :: "serviceHandler \<Rightarrow> string \<Rightarrow> string \<times> bool" where
  "isComplete sh deploymentId = isComplete_in (Deployments (currentOutput sh)) deploymentId"

text \<open>
  The \<open>for { select { ... } }\<close> loop of \<open>waitForDeployment\<close>, the same text in both
  variants of the program. \<open>nextCheck\<close> and \<open>nextTimeout\<close> are the next ticks of
  \<open>checkTimer\<close> and \<open>timeout\<close>.
\<close>

function waitForDeployment_loop ::
  "ecs_api \<Rightarrow> bool \<Rightarrow> string \<Rightarrow> nat \<Rightarrow> nat \<Rightarrow> serviceHandler \<Rightarrow> error option \<times> serviceHandler"
where
  "waitForDeployment_loop api tie deploymentId nextCheck nextTimeout sh =
     (case select tie (clock sh) nextCheck nextTimeout of
        TimeoutTimer t \<Rightarrow> (Some TimeoutDeployment, sh\<lparr>clock := t\<rparr>)
      | CheckTimer t \<Rightarrow>
          (case refresh api (sh\<lparr>clock := t\<rparr>) of
             (Some err, sh1) \<Rightarrow> (Some err, sh1)
           | (None, sh1) \<Rightarrow>
               (case isComplete sh1 deploymentId of
                  (status, ok) \<Rightarrow>
                    if ok then (None, sh1)
                    else if status = ''NOT_FOUND'' then (Some DeploymentDisappeared, sh1)
                    else waitForDeployment_loop api tie deploymentId
                           (nextCheck + checkPeriod) nextTimeout sh1)))"
  by pat_completeness auto
termination
proof (relation "measure (\<lambda>(api, tie, d, nextCheck, nextTimeout, sh).
                   max (clock sh) nextTimeout + checkPeriod - nextCheck)")
  show "wf (measure (\<lambda>(api, tie, d, nextCheck, nextTimeout, sh).
                   max (clock sh) nextTimeout + checkPeriod - nextCheck))"
    by simp
qed (auto simp: select_def Let_def checkPeriod_def refresh_def
          split: if_splits api_result.splits list.splits)

text \<open>
  \<open>waitForDeployment\<close> of the second variant tests \<open>isComplete\<close> once before it
  creates the tickers; the first variant goes straight to the loop.
\<close>

definition waitForDeployment ::
  "ecs_api \<Rightarrow> bool \<Rightarrow> string \<Rightarrow> serviceHandler \<Rightarrow> error option \<times> serviceHandler"
where
  "waitForDeployment api tie deploymentId sh =
     (if snd (isComplete sh deploymentId) then (None, sh)
      else waitForDeployment_loop api tie deploymentId
             (clock sh + checkPeriod) (clock sh + timeoutPeriod) sh)"

definition waitForDeployment_v1 ::
  "ecs_api \<Rightarrow> bool \<Rightarrow> string \<Rightarrow> serviceHandler \<Rightarrow> error option \<times> serviceHandler"
where
  "waitForDeployment_v1 api tie deploymentId sh =
     waitForDeployment_loop api tie deploymentId
       (clock sh + checkPeriod) (clock sh + timeoutPeriod) sh"

text \<open>\<open>checkDeployments\<close> of the second variant tracks the PRIMARY deployment.\<close>

definition checkDeployments ::
  "ecs_api \<Rightarrow> bool \<Rightarrow> serviceHandler \<Rightarrow> error option \<times> serviceHandler"
where
  "checkDeployments api tie sh =
     (case refresh api sh of
        (Some err, sh1) \<Rightarrow> (Some err, sh1)
      | (None, sh1) \<Rightarrow> waitForDeployment api tie (getActiveDeploymentId sh1) sh1)"

text \<open>
  \<open>checkDeployments\<close> of the first variant ranges over the deployments of the snapshot
  it fetched (the slice is evaluated once, so a refresh inside the loop does not change
  the range), skips the COMPLETED ones and waits on each IN_PROGRESS one.
\<close>

fun checkDeployments_range_v1 ::
  "ecs_api \<Rightarrow> bool \<Rightarrow> deployment list \<Rightarrow> serviceHandler \<Rightarrow> error option \<times> serviceHandler"
where
  "checkDeployments_range_v1 api tie [] sh = (None, sh)"
| "checkDeployments_range_v1 api tie (d # ds) sh =
     (if deploymentState d ''COMPLETED'' then checkDeployments_range_v1 api tie ds sh
      else if deploymentState d ''IN_PROGRESS''
      then (case waitForDeployment_v1 api tie (Id_dep d) sh of
              (Some err, sh1) \<Rightarrow> (Some err, sh1)
            | (None, sh1) \<Rightarrow> checkDeployments_range_v1 api tie ds sh1)
      else checkDeployments_range_v1 api tie ds sh)"

definition checkDeployments_v1 ::
  "ecs_api \<Rightarrow> bool \<Rightarrow> serviceHandler \<Rightarrow> error option \<times> serviceHandler"
where
  "checkDeployments_v1 api tie sh =
     (case refresh api sh of
        (Some err, sh1) \<Rightarrow> (Some err, sh1)
      | (None, sh1) \<Rightarrow>
          checkDeployments_range_v1 api tie (Deployments (currentOutput sh1)) sh1)"

section \<open>Waiting for the running count\<close>

definition isComplete_count :: "serviceHandler \<Rightarrow> bool" where
  "isComplete_count sh =
     (DesiredCount (currentOutput sh) = RunningCount (currentOutput sh))"

text \<open>
  The loop of \<open>waitForRunningToMatchDesired\<close>, the same text in both variants. The
  result of \<open>sh.refresh()\<close> is dropped by the source; the second \<open>isComplete()\<close>
  follows \<open>time.Sleep\<close> directly.
\<close>

function waitForRunningToMatchDesired_loop ::
  "ecs_api \<Rightarrow> bool \<Rightarrow> nat \<Rightarrow> nat \<Rightarrow> serviceHandler \<Rightarrow> error option \<times> serviceHandler"
where
  "waitForRunningToMatchDesired_loop api tie nextCheck nextTimeout sh =
     (case select tie (clock sh) nextCheck nextTimeout of
        TimeoutTimer t \<Rightarrow> (Some TimeoutCount, sh\<lparr>clock := t\<rparr>)
      | CheckTimer t \<Rightarrow>
          (let sh1 = snd (refresh api (sh\<lparr>clock := t\<rparr>)) in
           if isComplete_count sh1
           then (let sh2 = sleep 15 sh1 in
                 if isComplete_count sh2 then (None, sh2)
                 else waitForRunningToMatchDesired_loop api tie
                        (nextCheck + checkPeriod) nextTimeout sh2)
           else waitForRunningToMatchDesired_loop api tie
                  (nextCheck + checkPeriod) nextTimeout sh1))"
  by pat_completeness auto
termination
proof (relation "measure (\<lambda>(api, tie, nextCheck, nextTimeout, sh).
                   max (clock sh) nextTimeout + checkPeriod - nextCheck)")
  show "wf (measure (\<lambda>(api, tie, nextCheck, nextTimeout, sh).
                   max (clock sh) nextTimeout + checkPeriod - nextCheck))"
    by simp
qed (auto simp: select_def Let_def checkPeriod_def refresh_def isComplete_count_def sleep_def
          split: if_splits api_result.splits list.splits)

definition waitForRunningToMatchDesired ::
  "ecs_api \<Rightarrow> bool \<Rightarrow> serviceHandler \<Rightarrow> error option \<times> serviceHandler"
where
  "waitForRunningToMatchDesired api tie sh =
     (if isComplete_count sh then (None, sh)
      else waitForRunningToMatchDesired_loop api tie
             (clock sh + checkPeriod) (clock sh + timeoutPeriod) sh)"

definition checkPendingCount ::
  "ecs_api \<Rightarrow> bool \<Rightarrow> serviceHandler \<Rightarrow> error option \<times> serviceHandler"
where
  "checkPendingCount api tie sh =
     (case refresh api sh of
        (Some err, sh1) \<Rightarrow> (Some err, sh1)
      | (None, sh1) \<Rightarrow>
          if DesiredCount (currentOutput sh1) \<noteq> RunningCount (currentOutput sh1)
          then (case waitForRunningToMatchDesired api tie sh1 of
                  (Some err, sh2) \<Rightarrow> (Some err, sh2)
                | (None, sh2) \<Rightarrow> (None, sh2))
          else (None, sh1))"

section \<open>Diagnostics\<close>

text \<open>
  The slice expression \<open>s[0:n]\<close> with a variable \<open>n\<close>: Go panics when \<open>n\<close> is
  negative or beyond the capacity. The capacity is taken to be the length; the callers
  below never pass an \<open>n\<close> beyond the length.
\<close>

definition slice0 :: "'a list \<Rightarrow> int \<Rightarrow> 'a list option" where
  "slice0 s n = (if n < 0 \<or> int (length s) < n then None else Some (take (nat n) s))"

text \<open>
  The block \<open>if len(xs) < n { n = len(xs) - 1; if n == 0 { n = 1 } }\<close>, which all four
  printing functions share: the new value of \<open>n\<close>.
\<close>

definition clampCount :: "nat \<Rightarrow> int \<Rightarrow> int" where
  "clampCount len n =
     (if int len < n
      then (let n1 = int len - 1 in if n1 = 0 then 1 else n1)
      else n)"

definition emit :: "printed \<Rightarrow> serviceHandler \<Rightarrow> serviceHandler" where
  "emit p sh = sh\<lparr>stdout := stdout sh @ [p]\<rparr>"

definition printLastNEvents ::
  "ecs_api \<Rightarrow> int \<Rightarrow> serviceHandler \<Rightarrow> (error option \<times> serviceHandler) outcome"
where
  "printLastNEvents api n sh =
     (case refresh api sh of
        (Some err, sh1) \<Rightarrow> Done (Some err, sh1)
      | (None, sh1) \<Rightarrow>
          (let events = Events (currentOutput sh1) in
           if length events = 0 then Done (None, emit NoEventsFound sh1)
           else (case slice0 events (clampCount (length events) n) of
                   None \<Rightarrow> Panic
                 | Some shown \<Rightarrow> Done (None, emit (EventList shown) sh1))))"

definition printLastNEvents_v1 ::
  "ecs_api \<Rightarrow> int \<Rightarrow> serviceHandler \<Rightarrow> (error option \<times> serviceHandler) outcome"
where
  "printLastNEvents_v1 api n sh =
     (case refresh api sh of
        (Some err, sh1) \<Rightarrow> Done (Some err, sh1)
      | (None, sh1) \<Rightarrow>
          (let events = Events (currentOutput sh1) in
           case slice0 events (clampCount (length events) n) of
             None \<Rightarrow> Panic
           | Some shown \<Rightarrow> Done (None, emit (EventList shown) sh1)))"

definition printLastNTasks ::
  "ecs_api \<Rightarrow> int \<Rightarrow> serviceHandler \<Rightarrow> (error option \<times> serviceHandler) outcome"
where
  "printLastNTasks api n sh =
     (case ListTasks api of
        ApiErr e \<Rightarrow> Done (Some (TransportError e), sh)
      | ApiOk taskArns \<Rightarrow>
          if length taskArns = 0 then Done (None, emit NoStoppedTasks sh)
          else (case slice0 taskArns (clampCount (length taskArns) n) of
                  None \<Rightarrow> Panic
                | Some tasks \<Rightarrow>
                    (case DescribeTasks api tasks of
                       ApiErr e \<Rightarrow> Done (Some (TransportError e), sh)
                     | ApiOk out \<Rightarrow> Done (None, emit (TaskList out) sh))))"

definition printLastNTasks_v1 ::
  "ecs_api \<Rightarrow> int \<Rightarrow> serviceHandler \<Rightarrow> (error option \<times> serviceHandler) outcome"
where
  "printLastNTasks_v1 api n sh =
     (case ListTasks api of
        ApiErr e \<Rightarrow> Done (Some (TransportError e), sh)
      | ApiOk taskArns \<Rightarrow>
          (case slice0 taskArns (clampCount (length taskArns) n) of
             None \<Rightarrow> Panic
           | Some tasks \<Rightarrow>
               (case DescribeTasks api tasks of
                  ApiErr e \<Rightarrow> Done (Some (TransportError e), sh)
                | ApiOk out \<Rightarrow> Done (None, emit (TaskList out) sh))))"

text \<open>
  \<open>exitOut\<close> prints the diagnostics and ends in \<open>os.Exit(code)\<close>: \<open>Done (code, sh)\<close>
  says that the exit was reached. An error of a printing function is reported and the
  function goes on; a panic ends it. The first variant calls \<open>printLastNEvents(10)\<close>
  twice.
\<close>

definition exitOut :: "ecs_api \<Rightarrow> serviceHandler \<Rightarrow> int \<Rightarrow> (int \<times> serviceHandler) outcome" where
  "exitOut api sh code =
     (case printLastNEvents api 10 sh of
        Panic \<Rightarrow> Panic
      | Done (_, sh1) \<Rightarrow>
          (case printLastNTasks api 5 sh1 of
             Panic \<Rightarrow> Panic
           | Done (_, sh2) \<Rightarrow> Done (code, sh2)))"

definition exitOut_v1 :: "ecs_api \<Rightarrow> serviceHandler \<Rightarrow> int \<Rightarrow> (int \<times> serviceHandler) outcome" where
  "exitOut_v1 api sh code =
     (case printLastNEvents_v1 api 10 sh of
        Panic \<Rightarrow> Panic
      | Done (_, sh0) \<Rightarrow>
          (case printLastNEvents_v1 api 10 sh0 of
             Panic \<Rightarrow> Panic
           | Done (_, sh1) \<Rightarrow>
               (case printLastNTasks_v1 api 5 sh1 of
                  Panic \<Rightarrow> Panic
                | Done (_, sh2) \<Rightarrow> Done (code, sh2))))"

section \<open>The target group\<close>

text \<open>
  \<open>checkTargetGroup\<close> returns \<open>(bool, error)\<close>. The loop over the target health
  descriptions clears \<open>allHealthy\<close> at each target whose state is not \<open>healthy\<close>.
\<close>

definition allHealthy_of :: "string list \<Rightarrow> bool" where
  "allHealthy_of targets =
     fold (\<lambda>state allHealthy. if state \<noteq> ''healthy'' then False else allHealthy) targets True"

definition checkTargetGroup ::
  "ecs_api \<Rightarrow> serviceHandler \<Rightarrow> (bool \<times> error option) \<times> serviceHandler"
where
  "checkTargetGroup api sh =
     (case refresh api sh of
        (Some err, sh1) \<Rightarrow> ((False, Some err), sh1)
      | (None, sh1) \<Rightarrow>
          (case LoadBalancers (currentOutput sh1) of
             [] \<Rightarrow> ((True, None), sh1)
           | targetGroupArn # _ \<Rightarrow>
               (let sh2 = sh1\<lparr>healthCalls := healthCalls sh1 + 1\<rparr> in
                case DescribeTargetHealth api targetGroupArn of
                  ApiErr e \<Rightarrow> ((False, Some (TransportError e)), sh2)
                | ApiOk targets \<Rightarrow>
                    if \<not> allHealthy_of targets then ((False, None), sh2)
                    else ((True, None), sh2))))"

section \<open>Observations and example runs\<close>

text \<open>What a printing function returned and what stands on the output after it.\<close>

definition printed_of ::
  "(error option \<times> serviceHandler) outcome \<Rightarrow> (error option \<times> printed list) outcome"
where
  "printed_of r = (case r of Panic \<Rightarrow> Panic | Done (e, sh) \<Rightarrow> Done (e, stdout sh))"

text \<open>
  A control plane that answers every \<open>DescribeServices\<close> with the same service, has
  no STOPPED task, describes a task by its ARN and knows no target.
\<close>

definition constant_api :: "service \<Rightarrow> ecs_api" where
  "constant_api s =
     \<lparr>DescribeServices = (\<lambda>k. ApiOk [s]), ListTasks = ApiOk [],
      DescribeTasks = (\<lambda>arns. ApiOk arns), DescribeTargetHealth = (\<lambda>arn. ApiOk [])\<rparr>"

text \<open>The handler at the start of a check, with the settings of the command line.\<close>

definition handler :: "int \<Rightarrow> int \<Rightarrow> service \<Rightarrow> serviceHandler" where
  "handler interval minutes s =
     \<lparr>checkInterval = interval, checkTimeout = minutes, currentOutput = s,
      clock = 0, describeCalls = 0, healthCalls = 0, stdout = []\<rparr>"

definition quiet :: service where
  "quiet = \<lparr>DesiredCount = 1, RunningCount = 1, Deployments = [], Events = [],
     LoadBalancers = []\<rparr>"

definition no_primary :: service where
  "no_primary = \<lparr>DesiredCount = 1, RunningCount = 1,
     Deployments =
       [\<lparr>Id_dep = ''ecs-svc/1'', RolloutState = ''COMPLETED'', Status = ''ACTIVE''\<rparr>],
     Events = [], LoadBalancers = []\<rparr>"

definition three_events :: service where
  "three_events = \<lparr>DesiredCount = 1, RunningCount = 1, Deployments = [],
     Events = [''e1'', ''e2'', ''e3''], LoadBalancers = []\<rparr>"

definition three_stopped :: ecs_api where
  "three_stopped = (constant_api three_events)\<lparr>ListTasks := ApiOk [''t1'', ''t2'', ''t3'']\<rparr>"

definition lagging :: service where
  "lagging = \<lparr>DesiredCount = 2, RunningCount = 1, Deployments = [], Events = [],
     LoadBalancers = []\<rparr>"

definition matched :: service where
  "matched = \<lparr>DesiredCount = 2, RunningCount = 2, Deployments = [], Events = [],
     LoadBalancers = []\<rparr>"

text \<open>
  The running count reaches the desired count at the second \<open>DescribeServices\<close> and
  has fallen back at the third.
\<close>

definition flapping :: ecs_api where
  "flapping = (constant_api lagging)
     \<lparr>DescribeServices := (\<lambda>k. if k = 1 then ApiOk [matched] else ApiOk [lagging])\<rparr>"

text \<open>
  The second \<open>DescribeServices\<close> fails; the third shows the running count at the
  desired count.
\<close>

definition failing_once :: ecs_api where
  "failing_once = (constant_api lagging)
     \<lparr>DescribeServices := (\<lambda>k. if k = 0 then ApiOk [lagging]
                                else if k = 1 then ApiErr ''RequestError''
                                else ApiOk [matched])\<rparr>"

definition two_groups :: service where
  "two_groups = \<lparr>DesiredCount = 1, RunningCount = 1, Deployments = [], Events = [],
     LoadBalancers = [''tg/a'', ''tg/b'']\<rparr>"

text \<open>The targets of the first group are healthy, the one of the second is not.\<close>

definition first_healthy :: ecs_api where
  "first_healthy = (constant_api two_groups)
     \<lparr>DescribeTargetHealth :=
        (\<lambda>arn. if arn = ''tg/a'' then ApiOk [''healthy'', ''healthy''] else ApiOk [''unhealthy''])\<rparr>"

definition completed_primary :: service where
  "completed_primary = \<lparr>DesiredCount = 3, RunningCount = 3,
     Deployments =
       [\<lparr>Id_dep = ''ecs-svc/1'', RolloutState = ''COMPLETED'', Status = ''ACTIVE''\<rparr>,
        \<lparr>Id_dep = ''ecs-svc/2'', RolloutState = ''COMPLETED'', Status = ''PRIMARY''\<rparr>],
     Events = [], LoadBalancers = []\<rparr>"

(*DEFS*)

section \<open>Facts about refresh, select and the slices\<close>

declare waitForDeployment_loop.simps [simp del]
declare waitForRunningToMatchDesired_loop.simps [simp del]

lemma refresh_ok:
  "DescribeServices api (describeCalls sh) = ApiOk (s # rest) \<Longrightarrow>
   refresh api sh = (None, sh\<lparr>describeCalls := describeCalls sh + 1, currentOutput := s\<rparr>)"
  by (simp add: refresh_def)

lemma refresh_err:
  "DescribeServices api (describeCalls sh) = ApiErr e \<Longrightarrow>
   refresh api sh = (Some (TransportError e), sh\<lparr>describeCalls := describeCalls sh + 1\<rparr>)"
  by (simp add: refresh_def)

lemma printLastNEvents_v1_empty:
  assumes "DescribeServices api (describeCalls sh) = ApiOk (s # rest)"
      and "Events s = []" and "0 < n"
  shows "printLastNEvents_v1 api n sh = Panic"
  using assms by (simp add: printLastNEvents_v1_def refresh_ok clampCount_def slice0_def Let_def)

lemma slice0_butlast:
  assumes "1 < length xs"
  shows "slice0 xs (int (length xs) - 1) = Some (butlast xs)"
proof -
  have "nat (int (length xs) - 1) = length xs - 1"
    using assms by simp
  then show ?thesis
    using assms by (auto simp: slice0_def butlast_conv_take)
qed

lemma printLastNEvents_short:
  assumes "DescribeServices api (describeCalls sh) = ApiOk (s # rest)"
      and "1 < length (Events s)" and "int (length (Events s)) < n"
  shows "printed_of (printLastNEvents api n sh) =
           Done (None, stdout sh @ [EventList (butlast (Events s))])"
proof -
  have "clampCount (length (Events s)) n = int (length (Events s)) - 1"
    using assms(2,3) by (simp add: clampCount_def Let_def)
  moreover have "slice0 (Events s) (int (length (Events s)) - 1) = Some (butlast (Events s))"
    using assms(2) by (rule slice0_butlast)
  moreover have "length (Events s) \<noteq> 0"
    using assms(2) by linarith
  ultimately show ?thesis
    by (simp add: printLastNEvents_def refresh_ok[OF assms(1)] printed_of_def emit_def Let_def
          del: length_0_conv)
qed

lemma printLastNTasks_short:
  assumes "ListTasks api = ApiOk arns" and "1 < length arns" and "int (length arns) < n"
      and "DescribeTasks api (butlast arns) = ApiOk out"
  shows "printed_of (printLastNTasks api n sh) = Done (None, stdout sh @ [TaskList out])"
proof -
  have "clampCount (length arns) n = int (length arns) - 1"
    using assms(2,3) by (simp add: clampCount_def Let_def)
  moreover have "slice0 arns (int (length arns) - 1) = Some (butlast arns)"
    using assms(2) by (rule slice0_butlast)
  moreover have "length arns \<noteq> 0"
    using assms(2) by linarith
  ultimately show ?thesis
    using assms(1,4)
    by (simp add: printLastNTasks_def printed_of_def emit_def del: length_0_conv)
qed

lemma isComplete_count_sleep [simp]: "isComplete_count (sleep secs sh) = isComplete_count sh"
  by (simp add: isComplete_count_def sleep_def)

lemma waitForRunningToMatchDesired_loop_errors:
  "fst (waitForRunningToMatchDesired_loop api tie nextCheck nextTimeout sh) = None
   \<or> fst (waitForRunningToMatchDesired_loop api tie nextCheck nextTimeout sh) = Some TimeoutCount"
proof (induction api tie nextCheck nextTimeout sh rule: waitForRunningToMatchDesired_loop.induct)
  case (1 api tie nextCheck nextTimeout sh)
  show ?case
  proof (cases "select tie (clock sh) nextCheck nextTimeout")
    case (TimeoutTimer t)
    then show ?thesis
      by (subst (1 2) waitForRunningToMatchDesired_loop.simps) simp
  next
    case (CheckTimer t)
    show ?thesis
    proof (cases "isComplete_count (snd (refresh api (sh\<lparr>clock := t\<rparr>)))")
      case True
      with CheckTimer show ?thesis
        by (subst (1 2) waitForRunningToMatchDesired_loop.simps) (simp add: Let_def)
    next
      case False
      with CheckTimer "1.IH"(2)[OF CheckTimer refl False] show ?thesis
        by (subst (1 2) waitForRunningToMatchDesired_loop.simps) (simp add: Let_def)
    qed
  qed
qed

lemma allHealthy_of_iff: "allHealthy_of targets \<longleftrightarrow> (\<forall>state \<in> set targets. state = ''healthy'')"
proof -
  have "fold (\<lambda>state allHealthy. if state \<noteq> ''healthy'' then False else allHealthy) targets b
          \<longleftrightarrow> b \<and> (\<forall>state \<in> set targets. state = ''healthy'')" for b
    by (induction targets arbitrary: b) auto
  then show ?thesis by (simp add: allHealthy_of_def)
qed

lemma getActiveDeploymentId_in_primary:
  assumes "d \<in> set ds" and "Status d = ''PRIMARY''"
      and "\<forall>d' \<in> set ds. Status d' = ''PRIMARY'' \<longrightarrow> d' = d"
  shows "getActiveDeploymentId_in ds = Id_dep d"
  using assms
proof (induction ds)
  case Nil
  then show ?case by simp
next
  case (Cons a ds)
  show ?case
  proof (cases "Status a = ''PRIMARY''")
    case True
    with Cons.prems(3) have "a = d" by simp
    with True show ?thesis by simp
  next
    case False
    with Cons.prems(1,2) have "d \<in> set ds" by auto
    moreover from Cons.prems(3) have "\<forall>d' \<in> set ds. Status d' = ''PRIMARY'' \<longrightarrow> d' = d"
      by simp
    ultimately have "getActiveDeploymentId_in ds = Id_dep d"
      using Cons.IH Cons.prems(2) by blast
    with False show ?thesis by simp
  qed
qed

lemma isComplete_in_present:
  assumes "d \<in> set ds" and "distinct (map Id_dep ds)"
  shows "isComplete_in ds (Id_dep d) = (RolloutState d, RolloutState d = ''COMPLETED'')"
  using assms
proof (induction ds)
  case Nil
  then show ?case by simp
next
  case (Cons a ds)
  show ?case
  proof (cases "a = d")
    case True
    then show ?thesis by (simp add: deploymentState_def)
  next
    case False
    with Cons.prems(1) have in_ds: "d \<in> set ds" by simp
    then have "Id_dep d \<in> Id_dep ` set ds" by (rule imageI)
    with Cons.prems(2) have "Id_dep a \<noteq> Id_dep d" by auto
    moreover have "isComplete_in ds (Id_dep d) = (RolloutState d, RolloutState d = ''COMPLETED'')"
      using Cons.IH in_ds Cons.prems(2) by simp
    ultimately show ?thesis by simp
  qed
qed

lemma checkDeployments_range_v1_all_completed:
  "\<forall>d \<in> set ds. RolloutState d = ''COMPLETED'' \<Longrightarrow>
   checkDeployments_range_v1 api tie ds sh = (None, sh)"
  by (induction ds) (auto simp: deploymentState_def)

(*FACTS*)

section \<open>The claims\<close>

text \<open>
  C2, as the code has it. No deployment of the snapshot is PRIMARY, so
  \<open>getActiveDeploymentId\<close> returns the empty string; \<open>checkDeployments\<close> passes it to
  \<open>waitForDeployment\<close> unchecked, no deployment has that id, the loop is entered and
  its first tick, ten seconds later and after a second \<open>DescribeServices\<close>, ends the
  check with "deployment disappeared". The check does not succeed at once.
\<close>

theorem checkDeployments_no_primary_fails:
  "checkDeployments (constant_api no_primary) tie (handler 10 10 no_primary)
     = (Some DeploymentDisappeared,
        (handler 10 10 no_primary)\<lparr>clock := 10, describeCalls := 2\<rparr>)"
  by (simp add: checkDeployments_def waitForDeployment_def waitForDeployment_loop.simps
        refresh_def constant_api_def handler_def no_primary_def getActiveDeploymentId_def
        isComplete_def select_def checkPeriod_def timeoutPeriod_def deploymentState_def)

text \<open>
  C10. In the first variant \<open>printLastNEvents\<close> has no test for an empty event list.
  When the refreshed snapshot has no event and a positive number of events is asked
  for, \<open>n\<close> becomes \<open>-1\<close>, the slice \<open>Events[0:n]\<close> is out of range and the function
  panics; \<open>exitOut\<close>, which asks for ten events, panics with it.
\<close>

theorem printLastNEvents_v1_zero_events_panics:
  assumes "DescribeServices api (describeCalls sh) = ApiOk (s # rest)"
      and "Events s = []" and "0 < n"
  shows "clampCount (length (Events s)) n = - 1
         \<and> slice0 (Events s) (clampCount (length (Events s)) n) = None
         \<and> printLastNEvents_v1 api n sh = Panic
         \<and> exitOut_v1 api sh code = Panic"
proof -
  have a: "clampCount (length (Events s)) n = - 1"
    using assms(2,3) by (simp add: clampCount_def)
  have b: "slice0 (Events s) (- 1) = None"
    by (simp add: slice0_def)
  have c: "printLastNEvents_v1 api m sh = Panic" if "0 < m" for m
    using assms(1,2) that by (rule printLastNEvents_v1_empty)
  have d: "exitOut_v1 api sh code = Panic"
    by (simp add: exitOut_v1_def c)
  show ?thesis using a b c[OF assms(3)] d by simp
qed

theorem printLastNEvents_v1_zero_events_panics_witness:
  "DescribeServices (constant_api quiet) (describeCalls (handler 10 10 quiet)) = ApiOk [quiet]
   \<and> Events quiet = [] \<and> (0::int) < 10
   \<and> clampCount (length (Events quiet)) 10 = - 1
   \<and> slice0 (Events quiet) (clampCount (length (Events quiet)) 10) = None
   \<and> printLastNEvents_v1 (constant_api quiet) 10 (handler 10 10 quiet) = Panic
   \<and> exitOut_v1 (constant_api quiet) (handler 10 10 quiet) 1 = Panic"
  using printLastNEvents_v1_zero_events_panics
          [of "constant_api quiet" "handler 10 10 quiet" quiet "[]" 10 1]
  by (simp add: constant_api_def handler_def quiet_def slice0_def)

text \<open>
  C3, as the code has it. Three events are there and ten are asked for: two are printed.
  Three STOPPED tasks are there and five are asked for: two are described and printed.
  Neither call returns an error or panics; each shows one item less than there is.
\<close>

theorem diagnostics_show_one_item_less:
  "printed_of (printLastNEvents three_stopped 10 (handler 10 10 three_events))
     = Done (None, [EventList [''e1'', ''e2'']])
   \<and> printed_of (printLastNTasks three_stopped 5 (handler 10 10 three_events))
     = Done (None, [TaskList [''t1'', ''t2'']])"
proof -
  have "printed_of (printLastNEvents three_stopped 10 (handler 10 10 three_events))
     = Done (None, [EventList [''e1'', ''e2'']])"
    using printLastNEvents_short
            [of three_stopped "handler 10 10 three_events" three_events "[]" 10]
    by (simp add: three_stopped_def constant_api_def handler_def three_events_def)
  moreover have "printed_of (printLastNTasks three_stopped 5 (handler 10 10 three_events))
     = Done (None, [TaskList [''t1'', ''t2'']])"
    using printLastNTasks_short
            [of three_stopped "[''t1'', ''t2'', ''t3'']" 5 "[''t1'', ''t2'']"
                "handler 10 10 three_events"]
    by (simp add: three_stopped_def constant_api_def handler_def)
  ultimately show ?thesis by simp
qed

text \<open>
  C1, as the code has it. The first fetch of \<open>checkPendingCount\<close> shows one task
  running of two desired, so the loop is entered. At its first tick the refreshed
  snapshot shows two of two; the loop sleeps 15 seconds and tests the same snapshot
  again, without a refresh, and returns success: two \<open>DescribeServices\<close> calls have
  been made, at 25 seconds. The answer a further refresh would have received shows the
  count fallen back to one of two.
\<close>

theorem checkPendingCount_grace_without_refresh:
  "checkPendingCount flapping tie (handler 10 10 lagging)
     = (None, (handler 10 10 lagging)
                \<lparr>clock := 25, describeCalls := 2, currentOutput := matched\<rparr>)
   \<and> DescribeServices flapping 2 = ApiOk [lagging]
   \<and> \<not> isComplete_count ((handler 10 10 lagging)\<lparr>currentOutput := lagging\<rparr>)"
  by (simp add: checkPendingCount_def waitForRunningToMatchDesired_def
        waitForRunningToMatchDesired_loop.simps refresh_def flapping_def constant_api_def
        handler_def lagging_def matched_def isComplete_count_def select_def checkPeriod_def
        timeoutPeriod_def sleep_def Let_def)

text \<open>
  C4, as the code has it. In the loop of \<open>waitForRunningToMatchDesired\<close> the result
  of \<open>sh.refresh()\<close> is dropped. Here the refresh of the first tick fails; the loop
  keeps the old snapshot, waits for the next tick, sees the counts equal there and
  returns success at 35 seconds. The transport error is not returned.
\<close>

theorem checkPendingCount_drops_refresh_error:
  "DescribeServices failing_once 1 = ApiErr ''RequestError''
   \<and> checkPendingCount failing_once tie (handler 10 10 lagging)
     = (None, (handler 10 10 lagging)
                \<lparr>clock := 35, describeCalls := 3, currentOutput := matched\<rparr>)"
  by (simp add: checkPendingCount_def waitForRunningToMatchDesired_def
        waitForRunningToMatchDesired_loop.simps refresh_def failing_once_def constant_api_def
        handler_def lagging_def matched_def isComplete_count_def select_def checkPeriod_def
        timeoutPeriod_def sleep_def Let_def)

text \<open>
  C7. The first fetch succeeds, ids identify the deployments, and the one PRIMARY
  deployment of the snapshot is COMPLETED. Then \<open>checkDeployments\<close> returns without
  error in the state the refresh left: the clock has not moved, so no tick was waited
  for, and \<open>DescribeServices\<close> was called once.
\<close>

theorem checkDeployments_completed_at_once:
  assumes "DescribeServices api (describeCalls sh) = ApiOk (s # rest)"
      and "distinct (map Id_dep (Deployments s))"
      and "d \<in> set (Deployments s)" and "Status d = ''PRIMARY''"
      and "\<forall>d' \<in> set (Deployments s). Status d' = ''PRIMARY'' \<longrightarrow> d' = d"
      and "RolloutState d = ''COMPLETED''"
  shows "checkDeployments api tie sh
           = (None, sh\<lparr>describeCalls := describeCalls sh + 1, currentOutput := s\<rparr>)"
proof -
  define sh1 where "sh1 = sh\<lparr>describeCalls := describeCalls sh + 1, currentOutput := s\<rparr>"
  have out: "Deployments (currentOutput sh1) = Deployments s"
    by (simp add: sh1_def)
  have r: "refresh api sh = (None, sh1)"
    unfolding sh1_def using assms(1) by (rule refresh_ok)
  have "getActiveDeploymentId_in (Deployments s) = Id_dep d"
    using assms(3,4,5) by (rule getActiveDeploymentId_in_primary)
  then have tracked: "getActiveDeploymentId sh1 = Id_dep d"
    by (simp only: getActiveDeploymentId_def out)
  have "isComplete_in (Deployments s) (Id_dep d) = (RolloutState d, RolloutState d = ''COMPLETED'')"
    using assms(3,2) by (rule isComplete_in_present)
  then have "isComplete sh1 (Id_dep d) = (RolloutState d, True)"
    using assms(6) by (simp only: isComplete_def out simp_thms)
  then have "waitForDeployment api tie (Id_dep d) sh1 = (None, sh1)"
    by (simp add: waitForDeployment_def)
  then show ?thesis
    unfolding sh1_def[symmetric] by (simp add: checkDeployments_def r tracked)
qed

theorem checkDeployments_completed_at_once_witness:
  "DescribeServices (constant_api completed_primary)
       (describeCalls (handler 10 10 completed_primary)) = ApiOk [completed_primary]
   \<and> distinct (map Id_dep (Deployments completed_primary))
   \<and> checkDeployments (constant_api completed_primary) True (handler 10 10 completed_primary)
       = (None, (handler 10 10 completed_primary)\<lparr>describeCalls := 1\<rparr>)"
proof -
  define d where
    "d = \<lparr>Id_dep = ''ecs-svc/2'', RolloutState = ''COMPLETED'', Status = ''PRIMARY''\<rparr>"
  have deps: "Deployments completed_primary =
      [\<lparr>Id_dep = ''ecs-svc/1'', RolloutState = ''COMPLETED'', Status = ''ACTIVE''\<rparr>, d]"
    by (simp add: completed_primary_def d_def)
  have h1: "DescribeServices (constant_api completed_primary)
       (describeCalls (handler 10 10 completed_primary)) = ApiOk (completed_primary # [])"
    by (simp add: constant_api_def)
  have h2: "distinct (map Id_dep (Deployments completed_primary))"
    by (simp add: deps d_def)
  have h3: "d \<in> set (Deployments completed_primary)"
    by (simp add: deps)
  have h4: "Status d = ''PRIMARY''" and h6: "RolloutState d = ''COMPLETED''"
    by (simp_all add: d_def)
  have h5: "\<forall>d' \<in> set (Deployments completed_primary). Status d' = ''PRIMARY'' \<longrightarrow> d' = d"
    by (simp add: deps)
  have cur: "(handler 10 10 completed_primary)
        \<lparr>describeCalls := describeCalls (handler 10 10 completed_primary) + 1,
         currentOutput := completed_primary\<rparr>
      = (handler 10 10 completed_primary)\<lparr>describeCalls := 1\<rparr>"
    by (simp add: handler_def)
  show ?thesis
    using checkDeployments_completed_at_once[OF h1 h2 h3 h4 h5 h6, of True] h1 h2
    by (simp only: cur simp_thms)
qed

text \<open>
  C9. After a successful refresh, a service without load balancer makes
  \<open>checkTargetGroup\<close> return \<open>true\<close> in the state the refresh left, whatever the
  answers of \<open>DescribeTargetHealth\<close> are: it is not called. With load balancers, the
  target group of the first one is asked, once; when that call succeeds the result is
  \<open>true\<close> exactly when every target of that group is \<open>healthy\<close>, whatever the other
  load balancers are.
\<close>

theorem checkTargetGroup_first_binding:
  assumes "DescribeServices api (describeCalls sh) = ApiOk (s # rest)"
  shows "(LoadBalancers s = [] \<longrightarrow>
            checkTargetGroup api sh
              = ((True, None), sh\<lparr>describeCalls := describeCalls sh + 1, currentOutput := s\<rparr>))
       \<and> (\<forall>arn others targets.
            LoadBalancers s = arn # others \<and> DescribeTargetHealth api arn = ApiOk targets \<longrightarrow>
            checkTargetGroup api sh
              = (((\<forall>state \<in> set targets. state = ''healthy''), None),
                 sh\<lparr>describeCalls := describeCalls sh + 1, currentOutput := s,
                    healthCalls := healthCalls sh + 1\<rparr>))"
  by (auto simp: checkTargetGroup_def refresh_ok[OF assms] allHealthy_of_iff Let_def)

theorem checkTargetGroup_first_binding_witness:
  "DescribeServices first_healthy (describeCalls (handler 10 10 quiet)) = ApiOk [two_groups]
   \<and> LoadBalancers two_groups = ''tg/a'' # [''tg/b'']
   \<and> DescribeTargetHealth first_healthy ''tg/a'' = ApiOk [''healthy'', ''healthy'']
   \<and> checkTargetGroup first_healthy (handler 10 10 quiet)
       = ((True, None), (handler 10 10 quiet)
            \<lparr>describeCalls := 1, currentOutput := two_groups, healthCalls := 1\<rparr>)
   \<and> LoadBalancers quiet = []
   \<and> checkTargetGroup (constant_api quiet) (handler 10 10 quiet)
       = ((True, None), (handler 10 10 quiet)\<lparr>describeCalls := 1\<rparr>)"
  using checkTargetGroup_first_binding[of first_healthy "handler 10 10 quiet" two_groups "[]"]
        checkTargetGroup_first_binding[of "constant_api quiet" "handler 10 10 quiet" quiet "[]"]
  by (simp add: first_healthy_def constant_api_def handler_def quiet_def two_groups_def)

(*CLAIMS*)

end
